theory Spec2Isabelle
  imports Complex_Main "HOL-Library.Word"
begin

section \<open>JavaScript numbers\<close>

text \<open>
  A JavaScript number is an IEEE 754 double.  The fields of a receipt hold the doubles
  that the schema's \<open>z.number()\<close> lets through: the finite ones and the two infinities
  (a JSON literal such as \<open>1e999\<close> parses to Infinity); NaN is refused by the schema and
  is no field value.  A finite double is written \<open>Num x\<close> with \<open>x\<close> the real number it
  stands for; not every real number is a double, and \<open>isDouble\<close> below says which
  are.  The two zeros are not told apart: no operation the code uses (\<open>+\<close>,
  \<open>-\<close>, \<open>*\<close>, \<open>Math.abs\<close>, \<open><\<close>, \<open>>\<close>, printing) distinguishes them.
\<close>

datatype number = NegInfinity | Num real | Infinity

text \<open>The order of \<open><\<close> and \<open><=\<close> on numbers that are not NaN.\<close>

instantiation number :: "{zero, linorder}"
begin

definition zero_number :: number where
  "0 = Num 0"

fun less_eq_number :: "number \<Rightarrow> number \<Rightarrow> bool" where
  "less_eq_number NegInfinity y = True"
| "less_eq_number (Num a) NegInfinity = False"
| "less_eq_number (Num a) (Num b) = (a \<le> b)"
| "less_eq_number (Num a) Infinity = True"
| "less_eq_number Infinity NegInfinity = False"
| "less_eq_number Infinity (Num b) = False"
| "less_eq_number Infinity Infinity = True"

definition less_number :: "number \<Rightarrow> number \<Rightarrow> bool" where
  "less_number x y \<longleftrightarrow> x \<le> y \<and> \<not> y \<le> x"

instance
proof
  fix x y z :: number
  show "(x < y) = (x \<le> y \<and> \<not> y \<le> x)"
    by (simp add: less_number_def)
  show "x \<le> x"
    by (cases x) simp_all
  show "x \<le> y \<Longrightarrow> y \<le> z \<Longrightarrow> x \<le> z"
    by (cases x; cases y; cases z) simp_all
  show "x \<le> y \<Longrightarrow> y \<le> x \<Longrightarrow> x = y"
    by (cases x; cases y) simp_all
  show "x \<le> y \<or> y \<le> x"
    by (cases x; cases y) auto
qed

end

text \<open>
  Rounding a real number to the nearest double, ties to the even significand.  For
  \<open>a > 0\<close>, \<open>exponentOf a\<close> is the integer \<open>e\<close> with \<open>2^e <= a < 2^(e+1)\<close>; the doubles
  of that binade (of the subnormal range, below \<open>2^-1022\<close>) are the multiples of
  \<open>ulp e = 2^(e-52)\<close>; a result of \<open>2^1024\<close> or more overflows to an infinity.
\<close>

fun log2floor :: "nat \<Rightarrow> nat" where
  "log2floor n = (if n < 2 then 0 else Suc (log2floor (n div 2)))"

declare log2floor.simps [simp del]

definition exponentOf :: "real \<Rightarrow> int" where
  "exponentOf a =
     (if a \<ge> 1 then int (log2floor (nat \<lfloor>a\<rfloor>))
      else - (int (log2floor (nat (\<lceil>1 / a\<rceil> - 1))) + 1))"

definition roundHalfEven :: "real \<Rightarrow> int" where
  "roundHalfEven x =
     (let f = \<lfloor>x\<rfloor>; d = x - of_int f
      in if d < 1 / 2 then f else if d > 1 / 2 then f + 1 else if even f then f else f + 1)"

definition ulp :: "int \<Rightarrow> real" where
  "ulp e = (if e \<ge> 52 then 2 ^ nat (e - 52) else 1 / 2 ^ nat (52 - e))"

definition overflowThreshold :: real where
  "overflowThreshold = 2 ^ 1024"

definition roundDouble :: "real \<Rightarrow> number" where
  "roundDouble x =
     (if x = 0 then Num 0
      else
        (let a = \<bar>x\<bar>;
             q = ulp (max (exponentOf a) (- 1022));
             y = of_int (roundHalfEven (a / q)) * q
         in if y \<ge> overflowThreshold then (if x > 0 then Infinity else NegInfinity)
            else Num (if x > 0 then y else - y)))"

text \<open>A decimal literal, in the source or in a JSON text, is the double nearest to it.\<close>

definition lit :: "real \<Rightarrow> number" where
  "lit d = roundDouble d"

definition isDouble :: "number \<Rightarrow> bool" where
  "isDouble x = (case x of Num r \<Rightarrow> roundDouble r = Num r | _ \<Rightarrow> True)"

text \<open>
  The arithmetic of the validator.  A computed value may be NaN, which is \<open>None\<close>:
  Infinity minus Infinity, and zero times an infinity.  On finite operands the result is
  the exact result, rounded.  Every comparison with NaN is false.
\<close>

fun f_neg :: "number \<Rightarrow> number" where
  "f_neg NegInfinity = Infinity"
| "f_neg (Num a) = Num (- a)"
| "f_neg Infinity = NegInfinity"

fun f_add :: "number option \<Rightarrow> number option \<Rightarrow> number option" where
  "f_add (Some (Num a)) (Some (Num b)) = Some (roundDouble (a + b))"
| "f_add (Some Infinity) (Some NegInfinity) = None"
| "f_add (Some NegInfinity) (Some Infinity) = None"
| "f_add (Some Infinity) (Some y) = Some Infinity"
| "f_add (Some NegInfinity) (Some y) = Some NegInfinity"
| "f_add (Some (Num a)) (Some y) = Some y"
| "f_add None y = None"
| "f_add x None = None"

fun f_sub :: "number option \<Rightarrow> number option \<Rightarrow> number option" where
  "f_sub x None = None"
| "f_sub x (Some y) = f_add x (Some (f_neg y))"

fun f_mul :: "number \<Rightarrow> number \<Rightarrow> number option" where
  "f_mul (Num a) (Num b) = Some (roundDouble (a * b))"
| "f_mul x y =
     (if x = Num 0 \<or> y = Num 0 then None
      else if (x < 0) = (y < 0) then Some Infinity else Some NegInfinity)"

fun f_abs :: "number option \<Rightarrow> number option" where
  "f_abs None = None"
| "f_abs (Some x) = Some (if x < 0 then f_neg x else x)"

fun f_gt :: "number option \<Rightarrow> number option \<Rightarrow> bool" where
  "f_gt (Some x) (Some y) = (x > y)"
| "f_gt x y = False"

section \<open>Data model (src/types/receipt.ts)\<close>

text \<open>
  A JavaScript string is a sequence of UTF-16 code units, and \<open>.length\<close> counts code
  units; a string is therefore a list of 16-bit words.  ASCII literals of the source are
  written through \<open>js\<close>.
\<close>

type_synonym code_unit = "16 word"
type_synonym jsstring = "code_unit list"

definition js :: "string \<Rightarrow> jsstring" where
  "js s = map (\<lambda>c. word_of_nat (of_char c)) s"

record ReceiptItem =
  name :: jsstring
  quantity :: number
  price :: number

record AdditionalCost =
  name :: jsstring
  amount :: number
  additionalCost :: bool

record ReceiptAnalysisResult =
  items :: "ReceiptItem list"
  additionalCosts :: "AdditionalCost list option"
  totalPrice :: number
  currency :: jsstring
  currencySymbol :: "jsstring option"
  errorText :: "jsstring option"

text \<open>
  The refinements of the zod schemas: \<open>min(1)\<close> on strings, \<open>positive\<close> and
  \<open>nonnegative\<close> on numbers.  The shape of the object (which field is a string, a
  number, an array, and which may be missing) is carried by the record types.
\<close>

definition ReceiptItemSchema :: "ReceiptItem \<Rightarrow> bool" where
  "ReceiptItemSchema item \<longleftrightarrow>
     length (ReceiptItem.name item) \<ge> 1 \<and> quantity item > 0 \<and> price item \<ge> 0"

definition AdditionalCostSchema :: "AdditionalCost \<Rightarrow> bool" where
  "AdditionalCostSchema cost \<longleftrightarrow>
     length (AdditionalCost.name cost) \<ge> 1 \<and> amount cost \<ge> 0"

definition ReceiptAnalysisResultSchema :: "ReceiptAnalysisResult \<Rightarrow> bool" where
  "ReceiptAnalysisResultSchema r \<longleftrightarrow>
     list_all ReceiptItemSchema (items r) \<and>
     (case additionalCosts r of None \<Rightarrow> True | Some costs \<Rightarrow> list_all AdditionalCostSchema costs) \<and>
     totalPrice r \<ge> 0 \<and>
     length (currency r) \<ge> 1"

section \<open>JavaScript primitives used by the validator\<close>

text \<open>Truthiness of an optional string: \<open>undefined\<close> and \<open>""\<close> are falsy.\<close>

definition truthy :: "jsstring option \<Rightarrow> bool" where
  "truthy s = (case s of None \<Rightarrow> False | Some t \<Rightarrow> t \<noteq> [])"

text \<open>
  \<open>String.prototype.trim\<close> strips the code units of ECMAScript's WhiteSpace and
  LineTerminator productions from both ends.
\<close>

definition isWhiteSpace :: "code_unit \<Rightarrow> bool" where
  "isWhiteSpace c \<longleftrightarrow>
     c \<in> set [0x0009, 0x000A, 0x000B, 0x000C, 0x000D, 0x0020, 0x00A0, 0x1680,
               0x2000, 0x2001, 0x2002, 0x2003, 0x2004, 0x2005, 0x2006, 0x2007,
               0x2008, 0x2009, 0x200A, 0x2028, 0x2029, 0x202F, 0x205F, 0x3000, 0xFEFF]"

definition trim :: "jsstring \<Rightarrow> jsstring" where
  "trim s = rev (dropWhile isWhiteSpace (rev (dropWhile isWhiteSpace s)))"

text \<open>\<open>String.prototype.includes\<close>: the pattern occurs as a contiguous run.\<close>

fun js_includes :: "jsstring \<Rightarrow> jsstring \<Rightarrow> bool" where
  "js_includes [] p = (p = [])"
| "js_includes (c # cs) p = (take (length p) (c # cs) = p \<or> js_includes cs p)"

section \<open>The validator (validateBusinessLogic)\<close>

datatype error =
    OutputParserException
  | InvalidCurrencyFormat jsstring
  | ErrorWithItems
  | NegativeAdditionalCost jsstring
  | EmptyAdditionalCostName

text \<open>
  What the code writes to the console.  The mismatch warning carries the calculated
  total, a computed value, and the reported one.
\<close>

datatype diagnostic =
    TotalPriceMismatch "number option" number
  | NoItemsFound
  | FailedToParse error
  | ErrorProcessing
  | FailedToParseProcessing

text \<open>The loop over \<open>result.additionalCosts\<close>: the first offending entry throws.\<close>

fun checkAdditionalCosts :: "AdditionalCost list \<Rightarrow> error + unit" where
  "checkAdditionalCosts [] = Inr ()"
| "checkAdditionalCosts (cost # costs) =
     (if amount cost < 0 then Inl (NegativeAdditionalCost (AdditionalCost.name cost))
      else if AdditionalCost.name cost = [] \<or> length (trim (AdditionalCost.name cost)) = 0
        then Inl EmptyAdditionalCostName
      else checkAdditionalCosts costs)"

text \<open>
  The first block of the validator: the comparison of the calculated total with the
  reported one, which only warns.  Both \<open>reduce\<close> calls start from 0 and add from the
  left; each product, each sum and the difference is a double operation.
\<close>

definition reconcile :: "ReceiptAnalysisResult \<Rightarrow> diagnostic list" where
  "reconcile result =
     (if \<not> truthy (errorText result) \<and> length (items result) > 0 then
        (let itemsTotal =
               foldl (\<lambda>sum item. f_add sum (f_mul (price item) (quantity item))) (Some 0)
                 (items result);
             includedAdditionalCosts =
               foldl (\<lambda>sum cost. f_add sum (Some (amount cost))) (Some 0)
                 (filter additionalCost
                    (case additionalCosts result of None \<Rightarrow> [] | Some costs \<Rightarrow> costs));
             calculatedTotal = f_add itemsTotal includedAdditionalCosts;
             tolerance = lit 0.01
         in if f_gt (f_abs (f_sub calculatedTotal (Some (totalPrice result)))) (Some tolerance)
            then [TotalPriceMismatch calculatedTotal (totalPrice result)]
            else [])
      else [])"

text \<open>
  The validator returns nothing; it either throws or falls off its end.  The model
  returns the console output up to that point and the outcome.
\<close>

definition validateBusinessLogic :: "ReceiptAnalysisResult \<Rightarrow> diagnostic list \<times> (error + unit)" where
  "validateBusinessLogic result =
     (let log1 = reconcile result in
      if currency result \<noteq> [] \<and> length (currency result) \<noteq> 3
        then (log1, Inl (InvalidCurrencyFormat (currency result)))
      else if truthy (errorText result) \<and> length (items result) > 0
        then (log1, Inl ErrorWithItems)
      else
        (let log2 = log1 @ (if \<not> truthy (errorText result) \<and> length (items result) = 0
                            then [NoItemsFound] else [])
         in case additionalCosts result of
              None \<Rightarrow> (log2, Inr ())
            | Some costs \<Rightarrow> (log2, checkAdditionalCosts costs)))"

section \<open>The validator on a shared object\<close>

text \<open>
  The argument of the validator is a reference to an object that the caller goes on to
  return, so the validator could change it.  Here the object and the console are the
  state, and every statement of the validator is a step from state to state: a warning
  appends to the console, a \<open>throw\<close> ends the run with the state as it is, and a
  statement that assigned to the object would show as an update of \<open>result_object\<close>.
\<close>

record memory =
  result_object :: ReceiptAnalysisResult
  console :: "diagnostic list"

definition warn :: "diagnostic \<Rightarrow> memory \<Rightarrow> memory" where
  "warn d m = m\<lparr> console := console m @ [d] \<rparr>"

definition reconcile_in :: "memory \<Rightarrow> memory" where
  "reconcile_in m =
     (if \<not> truthy (errorText (result_object m)) \<and> length (items (result_object m)) > 0 then
        (let itemsTotal =
               foldl (\<lambda>sum item. f_add sum (f_mul (price item) (quantity item))) (Some 0)
                 (items (result_object m));
             includedAdditionalCosts =
               foldl (\<lambda>sum cost. f_add sum (Some (amount cost))) (Some 0)
                 (filter additionalCost
                    (case additionalCosts (result_object m) of None \<Rightarrow> [] | Some costs \<Rightarrow> costs));
             calculatedTotal = f_add itemsTotal includedAdditionalCosts;
             tolerance = lit 0.01
         in if f_gt (f_abs (f_sub calculatedTotal (Some (totalPrice (result_object m)))))
                 (Some tolerance)
            then warn (TotalPriceMismatch calculatedTotal (totalPrice (result_object m))) m
            else m)
      else m)"

definition validateBusinessLogic_in :: "memory \<Rightarrow> (error + unit) \<times> memory" where
  "validateBusinessLogic_in m0 =
     (let m1 = reconcile_in m0 in
      if currency (result_object m1) \<noteq> [] \<and> length (currency (result_object m1)) \<noteq> 3
        then (Inl (InvalidCurrencyFormat (currency (result_object m1))), m1)
      else if truthy (errorText (result_object m1)) \<and> length (items (result_object m1)) > 0
        then (Inl ErrorWithItems, m1)
      else
        (let m2 = (if \<not> truthy (errorText (result_object m1)) \<and>
                      length (items (result_object m1)) = 0
                   then warn NoItemsFound m1 else m1)
         in case additionalCosts (result_object m2) of
              None \<Rightarrow> (Inr (), m2)
            | Some costs \<Rightarrow> (checkAdditionalCosts costs, m2)))"

section \<open>The processor (processReceiptImage)\<close>

text \<open>
  The text of the model's response, as the structured output parser sees it: either
  it is not a JSON object of the schema's shape, or it is one, with these field values.
\<close>

datatype response = NotCoercible | Coercible ReceiptAnalysisResult

definition parse :: "response \<Rightarrow> error + ReceiptAnalysisResult" where
  "parse content =
     (case content of
        NotCoercible \<Rightarrow> Inl OutputParserException
      | Coercible r \<Rightarrow> if ReceiptAnalysisResultSchema r then Inr r else Inl OutputParserException)"

text \<open>The body of the inner \<open>try\<close>: parse, validate, return the parsed value.\<close>

definition parseAndValidate :: "response \<Rightarrow> diagnostic list \<times> (error + ReceiptAnalysisResult)" where
  "parseAndValidate content =
     (case parse content of
        Inl e \<Rightarrow> ([], Inl e)
      | Inr result \<Rightarrow>
          (case validateBusinessLogic result of
             (out, Inl e) \<Rightarrow> (out, Inl e)
           | (out, Inr _) \<Rightarrow> (out, Inr result)))"

definition safeDefault :: "jsstring \<Rightarrow> ReceiptAnalysisResult" where
  "safeDefault message =
     \<lparr> items = [], additionalCosts = Some [], totalPrice = 0, currency = js ''USD'',
       currencySymbol = Some (js ''$''), errorText = Some message \<rparr>"

text \<open>
  What the call of the model does: it throws an \<open>Error\<close> with a message, throws
  something that is not an \<open>Error\<close>, or returns a response.
\<close>

datatype invocation = ThrowsError jsstring | ThrowsOther | Returns response

definition processReceiptImage :: "invocation \<Rightarrow> diagnostic list \<times> (jsstring + ReceiptAnalysisResult)" where
  "processReceiptImage call =
     (case call of
        Returns content \<Rightarrow>
          (case parseAndValidate content of
             (out, Inr result) \<Rightarrow> (out, Inr result)
           | (out, Inl validationError) \<Rightarrow>
               (out @ [FailedToParse validationError], Inr (safeDefault (js ''parsing error''))))
      | ThrowsError message \<Rightarrow>
          (if js_includes message (js ''parsing'') \<or> js_includes message (js ''validation'')
              \<or> js_includes message (js ''schema'')
           then ([ErrorProcessing, FailedToParseProcessing], Inr (safeDefault (js ''processing error'')))
           else ([ErrorProcessing], Inl (js ''Failed to process receipt: '' @ message)))
      | ThrowsOther \<Rightarrow>
          ([ErrorProcessing], Inl (js ''Failed to process receipt: Unknown error'')))"

section \<open>Example receipts\<close>

definition tax :: "number \<Rightarrow> AdditionalCost" where
  "tax a = \<lparr> name = js ''Tax'', amount = a, additionalCost = True \<rparr>"

definition blank :: AdditionalCost where
  "blank = \<lparr> name = js ''  '', amount = Num 1, additionalCost = False \<rparr>"

definition blurry :: ReceiptAnalysisResult where
  "blurry = \<lparr> items = [], additionalCosts = Some [tax (Num 1.5)], totalPrice = 0,
              currency = js ''USD'', currencySymbol = Some (js ''$''),
              errorText = Some (js ''too blurry'') \<rparr>"

definition lunch :: "number \<Rightarrow> ReceiptAnalysisResult" where
  "lunch reported =
     \<lparr> items = [\<lparr> ReceiptItem.name = js ''Coffee'', quantity = Num 2, price = Num 4.50 \<rparr>,
                \<lparr> ReceiptItem.name = js ''Sandwich'', quantity = Num 1, price = lit 8.99 \<rparr>],
       additionalCosts = None, totalPrice = reported, currency = js ''USD'',
       currencySymbol = Some (js ''$''), errorText = None \<rparr>"

definition pizza :: ReceiptAnalysisResult where
  "pizza = \<lparr> items = [\<lparr> ReceiptItem.name = js ''Pizza'', quantity = Num 1, price = Num 10 \<rparr>],
             additionalCosts = Some [tax (Num 1)], totalPrice = Num 11, currency = js ''USD'',
             currencySymbol = Some (js ''$''), errorText = None \<rparr>"

definition withCurrency :: "jsstring \<Rightarrow> ReceiptAnalysisResult" where
  "withCurrency c = (lunch (lit 17.99))\<lparr> currency := c \<rparr>"

definition blurryWithItems :: ReceiptAnalysisResult where
  "blurryWithItems = (lunch (lit 17.99))\<lparr> errorText := Some (js ''too blurry'') \<rparr>"

definition withCosts :: "AdditionalCost list \<Rightarrow> ReceiptAnalysisResult" where
  "withCosts costs = (lunch (lit 17.99))\<lparr> additionalCosts := Some costs \<rparr>"

definition nothingFound :: "jsstring \<Rightarrow> ReceiptAnalysisResult" where
  "nothingFound c = \<lparr> items = [], additionalCosts = None, totalPrice = 0, currency = c,
                       currencySymbol = None, errorText = Some (js '''') \<rparr>"

text \<open>One item at 2^53 with a flagged cost of 1, and one item at 0.99 against a total of 1.\<close>

definition fortune :: ReceiptAnalysisResult where
  "fortune = \<lparr> items = [\<lparr> ReceiptItem.name = js ''Yacht'', quantity = Num 1,
                          price = Num 9007199254740992 \<rparr>],
               additionalCosts = Some [tax (Num 1)], totalPrice = Num 9007199254740992,
               currency = js ''USD'', currencySymbol = Some (js ''$''), errorText = None \<rparr>"

definition gum :: ReceiptAnalysisResult where
  "gum = \<lparr> items = [\<lparr> ReceiptItem.name = js ''Gum'', quantity = Num 1, price = lit 0.99 \<rparr>],
           additionalCosts = None, totalPrice = Num 1, currency = js ''USD'',
           currencySymbol = Some (js ''$''), errorText = None \<rparr>"

section \<open>The reconciliation as the specification words it\<close>

text \<open>
  Rule 4 of the specification: the items subtotal is the sum of price times quantity
  over all items, the included extra is the sum of the amounts of the additional costs
  whose flag is set, and the calculated total is the sum of the two.  These follow the
  specification, with the sums and products those of doubles, added from the left;
  \<open>reconcile\<close> above follows the code.
\<close>

definition f_sum :: "number option list \<Rightarrow> number option" where
  "f_sum xs = foldl f_add (Some 0) xs"

definition itemsSubtotal :: "ReceiptAnalysisResult \<Rightarrow> number option" where
  "itemsSubtotal r = f_sum (map (\<lambda>item. f_mul (price item) (quantity item)) (items r))"

definition includedExtra :: "ReceiptAnalysisResult \<Rightarrow> number option" where
  "includedExtra r =
     f_sum (map (\<lambda>cost. Some (amount cost))
              (filter additionalCost
                 (case additionalCosts r of None \<Rightarrow> [] | Some costs \<Rightarrow> costs)))"

definition spec_calculatedTotal :: "ReceiptAnalysisResult \<Rightarrow> number option" where
  "spec_calculatedTotal r = f_add (itemsSubtotal r) (includedExtra r)"

section \<open>Facts about the numbers\<close>

lemma Num_order:
  "Num a < Num b \<longleftrightarrow> a < b" "Num a < 0 \<longleftrightarrow> a < 0" "0 < Num a \<longleftrightarrow> 0 < a"
  "0 \<le> Num a \<longleftrightarrow> 0 \<le> a" "Num a \<le> 0 \<longleftrightarrow> a \<le> 0" "(0::number) \<le> 0"
  by (auto simp: less_number_def zero_number_def)

text \<open>Rounding with the exponent and the significand given, for evaluation in steps.\<close>

lemma roundDouble_pos:
  assumes "0 < x" and "exponentOf x = e" and "- 1022 \<le> e"
    and "roundHalfEven (x / ulp e) = n" and "of_int n * ulp e = y" and "y < overflowThreshold"
  shows "roundDouble x = Num y"
proof -
  have a: "\<bar>x\<bar> = x" and z: "x \<noteq> 0"
    using assms(1) by simp_all
  have m: "max (exponentOf \<bar>x\<bar>) (- 1022) = e"
    using assms(2,3) by (simp add: a)
  have y: "of_int (roundHalfEven (\<bar>x\<bar> / ulp e)) * ulp e = y"
    using assms(4,5) by (simp add: a)
  show ?thesis
    unfolding roundDouble_def Let_def m y using z assms(1,6) by simp
qed

lemma roundDouble_minus: "roundDouble (- x) = f_neg (roundDouble x)"
  by (simp add: roundDouble_def Let_def)

lemma roundDouble_zero: "roundDouble 0 = Num 0"
  by (simp add: roundDouble_def)

lemma f_add_zero_left: "f_add (Some 0) (Some (Num r)) = Some (roundDouble r)"
  by (simp add: zero_number_def)

lemma f_add_zero_right: "f_add (Some (Num r)) (Some 0) = Some (roundDouble r)"
  by (simp add: zero_number_def)

lemma f_abs_Num: "f_abs (Some (Num a)) = Some (Num \<bar>a\<bar>)"
  by (simp add: Num_order)

lemma f_gt_Num: "f_gt (Some (Num a)) (Some (Num b)) \<longleftrightarrow> b < a"
  by (simp add: Num_order)

text \<open>The doubles of the examples.\<close>

lemma lit_8_99: "lit (899 / 100) = Num (5060920081257595 / 562949953421312)"
  unfolding lit_def
  by (rule roundDouble_pos [where e = "3" and n = 5060920081257595])
    (simp_all add: exponentOf_def log2floor.simps ulp_def roundHalfEven_def Let_def overflowThreshold_def)

lemma lit_17_99: "lit (1799 / 100) = Num (5063734831024701 / 281474976710656)"
  unfolding lit_def
  by (rule roundDouble_pos [where e = "4" and n = 5063734831024701])
    (simp_all add: exponentOf_def log2floor.simps ulp_def roundHalfEven_def Let_def overflowThreshold_def)

lemma lit_0_01: "lit (1 / 100) = Num (5764607523034235 / 576460752303423488)"
  unfolding lit_def
  by (rule roundDouble_pos [where e = "- 7" and n = 5764607523034235])
    (simp_all add: exponentOf_def log2floor.simps ulp_def roundHalfEven_def Let_def overflowThreshold_def)

lemma lit_0_99: "lit (99 / 100) = Num (4458563631096791 / 4503599627370496)"
  unfolding lit_def
  by (rule roundDouble_pos [where e = "- 1" and n = 8917127262193582])
    (simp_all add: exponentOf_def log2floor.simps ulp_def roundHalfEven_def Let_def overflowThreshold_def)

lemma round_1: "roundDouble 1 = Num (1)"
  by (rule roundDouble_pos [where e = "0" and n = 4503599627370496])
    (simp_all add: exponentOf_def log2floor.simps ulp_def roundHalfEven_def Let_def overflowThreshold_def)

lemma round_9: "roundDouble 9 = Num (9)"
  by (rule roundDouble_pos [where e = "3" and n = 5066549580791808])
    (simp_all add: exponentOf_def log2floor.simps ulp_def roundHalfEven_def Let_def overflowThreshold_def)

lemma round_10: "roundDouble 10 = Num (10)"
  by (rule roundDouble_pos [where e = "3" and n = 5629499534213120])
    (simp_all add: exponentOf_def log2floor.simps ulp_def roundHalfEven_def Let_def overflowThreshold_def)

lemma round_11: "roundDouble 11 = Num (11)"
  by (rule roundDouble_pos [where e = "3" and n = 6192449487634432])
    (simp_all add: exponentOf_def log2floor.simps ulp_def roundHalfEven_def Let_def overflowThreshold_def)

lemma round_2_53: "roundDouble 9007199254740992 = Num (9007199254740992)"
  by (rule roundDouble_pos [where e = "53" and n = 4503599627370496])
    (simp_all add: exponentOf_def log2floor.simps ulp_def roundHalfEven_def Let_def overflowThreshold_def)

lemma round_2_53_plus_1: "roundDouble (9007199254740992 + 1) = Num 9007199254740992"
  by (rule roundDouble_pos [where e = "53" and n = 4503599627370496])
    (simp_all add: exponentOf_def log2floor.simps ulp_def roundHalfEven_def Let_def overflowThreshold_def)

lemma round_8_99: "roundDouble (5060920081257595 / 562949953421312) = Num (5060920081257595 / 562949953421312)"
  by (rule roundDouble_pos [where e = "3" and n = 5060920081257595])
    (simp_all add: exponentOf_def log2floor.simps ulp_def roundHalfEven_def Let_def overflowThreshold_def)

lemma round_lunch_total: "roundDouble (9 + 5060920081257595 / 562949953421312) = Num (2531867415512351 / 140737488355328)"
  by (rule roundDouble_pos [where e = "4" and n = 5063734831024702])
    (simp_all add: exponentOf_def log2floor.simps ulp_def roundHalfEven_def Let_def overflowThreshold_def)

lemma round_lunch_total_again: "roundDouble (2531867415512351 / 140737488355328) = Num (2531867415512351 / 140737488355328)"
  by (rule roundDouble_pos [where e = "4" and n = 5063734831024702])
    (simp_all add: exponentOf_def log2floor.simps ulp_def roundHalfEven_def Let_def overflowThreshold_def)

lemma round_lunch_minus_17_99: "roundDouble (2531867415512351 / 140737488355328 + - (5063734831024701 / 281474976710656)) = Num (1 / 281474976710656)"
  by (rule roundDouble_pos [where e = "- 48" and n = 4503599627370496])
    (simp_all add: exponentOf_def log2floor.simps ulp_def roundHalfEven_def Let_def overflowThreshold_def)

lemma round_20_minus_lunch: "roundDouble (- (2531867415512351 / 140737488355328 + - 20)) = Num (282882351594209 / 140737488355328)"
  by (rule roundDouble_pos [where e = "1" and n = 4526117625507344])
    (simp_all add: exponentOf_def log2floor.simps ulp_def roundHalfEven_def Let_def overflowThreshold_def)

lemma round_0_99: "roundDouble (4458563631096791 / 4503599627370496) = Num (4458563631096791 / 4503599627370496)"
  by (rule roundDouble_pos [where e = "- 1" and n = 8917127262193582])
    (simp_all add: exponentOf_def log2floor.simps ulp_def roundHalfEven_def Let_def overflowThreshold_def)

lemma round_1_minus_0_99: "roundDouble (- (4458563631096791 / 4503599627370496 + - 1)) = Num (45035996273705 / 4503599627370496)"
  by (rule roundDouble_pos [where e = "- 7" and n = 5764607523034240])
    (simp_all add: exponentOf_def log2floor.simps ulp_def roundHalfEven_def Let_def overflowThreshold_def)

section \<open>Auxiliary facts\<close>

text \<open>A trimmed string is empty exactly when every code unit of it is white space.\<close>

lemma trim_Nil_iff: "trim s = [] \<longleftrightarrow> list_all isWhiteSpace s"
proof -
  have "dropWhile isWhiteSpace (rev (dropWhile isWhiteSpace s)) = [] \<longleftrightarrow>
        dropWhile isWhiteSpace s = []"
  proof
    assume a: "dropWhile isWhiteSpace (rev (dropWhile isWhiteSpace s)) = []"
    show "dropWhile isWhiteSpace s = []"
    proof (rule ccontr)
      assume n: "dropWhile isWhiteSpace s \<noteq> []"
      then have "\<not> isWhiteSpace (hd (dropWhile isWhiteSpace s))"
        by (rule hd_dropWhile)
      moreover have "hd (dropWhile isWhiteSpace s) \<in> set (rev (dropWhile isWhiteSpace s))"
        using n by simp
      ultimately show False using a by simp
    qed
  next
    assume "dropWhile isWhiteSpace s = []"
    then show "dropWhile isWhiteSpace (rev (dropWhile isWhiteSpace s)) = []"
      by (simp del: dropWhile_eq_Nil_conv)
  qed
  then show ?thesis by (simp add: trim_def dropWhile_eq_Nil_conv list_all_iff)
qed

text \<open>The loop over the additional costs runs to its end exactly when no entry offends.\<close>

lemma checkAdditionalCosts_Inr_iff:
  "checkAdditionalCosts costs = Inr () \<longleftrightarrow>
     (\<forall>cost \<in> set costs. amount cost \<ge> 0 \<and> trim (AdditionalCost.name cost) \<noteq> [])"
  by (induction costs) (auto simp: trim_def)

text \<open>When the validator falls off its end, in terms of its three throwing checks.\<close>

lemma outcome_Inr_iff:
  "snd (validateBusinessLogic r) = Inr () \<longleftrightarrow>
     (currency r \<noteq> [] \<longrightarrow> length (currency r) = 3) \<and>
     (truthy (errorText r) \<longrightarrow> items r = []) \<and>
     (case additionalCosts r of None \<Rightarrow> True | Some costs \<Rightarrow> checkAdditionalCosts costs = Inr ())"
  by (auto simp: validateBusinessLogic_def Let_def split: option.splits)

lemma outcome_cases:
  "snd (validateBusinessLogic r) = Inr () \<or> (\<exists>e. snd (validateBusinessLogic r) = Inl e)"
  by (cases "snd (validateBusinessLogic r)") auto

lemma blurry_accepted: "validateBusinessLogic blurry = ([], Inr ())"
  by (simp add: validateBusinessLogic_def blurry_def tax_def js_def truthy_def reconcile_def
      trim_def isWhiteSpace_def Num_order)

lemma checkAdditionalCosts_not_ErrorWithItems:
  "checkAdditionalCosts costs \<noteq> Inl ErrorWithItems"
  by (induction costs) auto

text \<open>The code's two folds compute the specification's sums.\<close>

lemma reconcile_eq:
  "reconcile r =
     (if \<not> truthy (errorText r) \<and> items r \<noteq> [] \<and>
         f_gt (f_abs (f_sub (spec_calculatedTotal r) (Some (totalPrice r)))) (Some (lit 0.01))
      then [TotalPriceMismatch (spec_calculatedTotal r) (totalPrice r)] else [])"
  by (simp add: reconcile_def Let_def spec_calculatedTotal_def itemsSubtotal_def
      includedExtra_def f_sum_def foldl_map)

text \<open>The console output of the validator: the reconciliation, then at most the advisory.\<close>

lemma fst_validateBusinessLogic:
  "fst (validateBusinessLogic r) = reconcile r \<or>
   fst (validateBusinessLogic r) = reconcile r @ [NoItemsFound]"
  by (auto simp: validateBusinessLogic_def Let_def split: option.splits)

lemma fst_validateBusinessLogic_accepted:
  "snd (validateBusinessLogic r) = Inr () \<Longrightarrow>
   fst (validateBusinessLogic r) =
     reconcile r @ (if \<not> truthy (errorText r) \<and> items r = [] then [NoItemsFound] else [])"
  by (auto simp: validateBusinessLogic_def Let_def split: option.splits if_splits)

lemma mismatch_logged_iff:
  "TotalPriceMismatch a b \<in> set (fst (validateBusinessLogic r)) \<longleftrightarrow>
   TotalPriceMismatch a b \<in> set (reconcile r)"
  using fst_validateBusinessLogic [of r] by auto

lemma advisory_logged_iff:
  "NoItemsFound \<in> set (fst (validateBusinessLogic r)) \<longleftrightarrow>
     \<not> truthy (errorText r) \<and> items r = [] \<and> (currency r \<noteq> [] \<longrightarrow> length (currency r) = 3)"
  by (auto simp: validateBusinessLogic_def Let_def reconcile_def split: option.splits)

text \<open>The inner \<open>try\<close> block hands back the parsed value itself.\<close>

lemma parseAndValidate_Inr_iff:
  "snd (parseAndValidate (Coercible r)) = Inr r' \<longleftrightarrow>
     r' = r \<and> ReceiptAnalysisResultSchema r \<and> snd (validateBusinessLogic r) = Inr ()"
  by (auto simp: parseAndValidate_def parse_def split: sum.splits prod.splits)

lemma parseAndValidate_cases:
  "(\<exists>r. snd (parseAndValidate content) = Inr r) \<or> (\<exists>e. snd (parseAndValidate content) = Inl e)"
  by (cases "snd (parseAndValidate content)") auto

lemma js_lengths:
  "length (js ''US'') = 2" "length (js ''USDOLLAR'') = 8" "js '''' = []" "js ''US'' \<noteq> []"
  "js ''USDOLLAR'' \<noteq> []"
  by (simp_all add: js_def)

text \<open>The lunch receipt: its fields, and its calculated total, 17.990000000000002.\<close>

lemma lunch_schema: "ReceiptAnalysisResultSchema (lunch t) \<longleftrightarrow> t \<ge> 0"
  by (simp add: ReceiptAnalysisResultSchema_def lunch_def ReceiptItemSchema_def js_def
      lit_8_99 Num_order)

lemma lunch_fields:
  "errorText (lunch t) = None" "items (lunch t) \<noteq> []" "totalPrice (lunch t) = t"
  "additionalCosts (lunch t) = None" "length (currency (lunch t)) = 3"
  by (simp_all add: lunch_def js_def)

lemma lunch_total:
  "spec_calculatedTotal (lunch t) = Some (Num (2531867415512351 / 140737488355328))"
  using round_lunch_total
  by (simp add: spec_calculatedTotal_def itemsSubtotal_def includedExtra_def f_sum_def lunch_def
      lit_8_99 round_9 round_8_99 round_lunch_total_again f_add_zero_left f_add_zero_right)

lemma lunch_accepted: "snd (validateBusinessLogic (lunch t)) = Inr ()"
  by (simp add: outcome_Inr_iff lunch_def js_def truthy_def)

lemma lunch_17_99_validated: "validateBusinessLogic (lunch (lit 17.99)) = ([], Inr ())"
proof -
  have "reconcile (lunch (lit 17.99)) = []"
    using round_lunch_minus_17_99
    by (simp add: reconcile_eq lunch_total lunch_fields lit_17_99 lit_0_01 Num_order truthy_def)
  then show ?thesis
    using lunch_accepted [of "lit 17.99"]
      fst_validateBusinessLogic_accepted [OF lunch_accepted [of "lit 17.99"]]
    by (simp add: prod_eq_iff lunch_fields)
qed

lemma lunch_20_validated:
  "validateBusinessLogic (lunch (Num 20)) =
     ([TotalPriceMismatch (Some (Num (2531867415512351 / 140737488355328))) (Num 20)], Inr ())"
proof -
  have "reconcile (lunch (Num 20)) =
          [TotalPriceMismatch (Some (Num (2531867415512351 / 140737488355328))) (Num 20)]"
    using round_20_minus_lunch
    by (simp add: reconcile_eq lunch_total lunch_fields lit_0_01 Num_order roundDouble_minus
        truthy_def)
  then show ?thesis
    using lunch_accepted [of "Num 20"]
      fst_validateBusinessLogic_accepted [OF lunch_accepted [of "Num 20"]]
    by (simp add: prod_eq_iff lunch_fields)
qed

text \<open>The validator on the shared object does what the function says, and no more.\<close>

lemma reconcile_in_eq:
  "reconcile_in m = m\<lparr> console := console m @ reconcile (result_object m) \<rparr>"
  by (simp add: reconcile_in_def reconcile_def warn_def Let_def)

lemma validateBusinessLogic_in_eq:
  "validateBusinessLogic_in m =
     (snd (validateBusinessLogic (result_object m)),
      m\<lparr> console := console m @ fst (validateBusinessLogic (result_object m)) \<rparr>)"
  by (simp add: validateBusinessLogic_in_def validateBusinessLogic_def reconcile_in_eq warn_def
      Let_def split: option.splits)

section \<open>Acceptance is rules 1 to 3\<close>

text \<open>
  Claim C1.  The validator returns without throwing exactly when the result satisfies the
  three throwing rules: its currency, when non-empty, has exactly three code units; when
  its errorText is set and non-empty, it has no items; and every additional cost has an
  amount of at least zero and a name that is not empty after trimming.  Nothing else
  enters the condition, so neither a total that does not reconcile nor an empty result
  blocks acceptance.
\<close>

theorem validateBusinessLogic_accepts_iff_rules:
  "snd (validateBusinessLogic r) = Inr () \<longleftrightarrow>
     (currency r \<noteq> [] \<longrightarrow> length (currency r) = 3) \<and>
     (\<forall>t. errorText r = Some t \<and> t \<noteq> [] \<longrightarrow> items r = []) \<and>
     (\<forall>costs. additionalCosts r = Some costs \<longrightarrow>
        (\<forall>cost \<in> set costs. amount cost \<ge> 0 \<and> trim (AdditionalCost.name cost) \<noteq> []))"
  by (auto simp: outcome_Inr_iff checkAdditionalCosts_Inr_iff truthy_def split: option.splits)

theorem validateBusinessLogic_accepts_iff_rules_witness:
  "snd (validateBusinessLogic blurry) = Inr () \<and>
   currency blurry \<noteq> [] \<and> length (currency blurry) = 3 \<and>
   errorText blurry = Some (js ''too blurry'') \<and> js ''too blurry'' \<noteq> [] \<and> items blurry = [] \<and>
   additionalCosts blurry = Some [tax (Num 1.5)] \<and> tax (Num 1.5) \<in> set [tax (Num 1.5)] \<and>
   amount (tax (Num 1.5)) \<ge> 0 \<and> trim (AdditionalCost.name (tax (Num 1.5))) \<noteq> []"
proof -
  have acc: "snd (validateBusinessLogic blurry) = Inr ()"
    by (simp add: blurry_accepted)
  have cur: "currency blurry \<noteq> []" and err: "errorText blurry = Some (js ''too blurry'')"
    and ne: "js ''too blurry'' \<noteq> []"
    and costs: "additionalCosts blurry = Some [tax (Num 1.5)]"
    by (simp_all add: blurry_def js_def)
  from validateBusinessLogic_accepts_iff_rules [of blurry] acc cur err ne costs
  show ?thesis by simp
qed

section \<open>An error excludes items\<close>

text \<open>
  Claim C3.  A result whose errorText is set and non-empty and which has items is
  rejected: the validator throws, either at the exclusivity check or, before it, at the
  currency check.  Hence a result accepted with a non-empty errorText has no items.
\<close>

theorem error_with_items_rejected:
  "(errorText r = Some t \<and> t \<noteq> [] \<and> items r \<noteq> [] \<longrightarrow>
      snd (validateBusinessLogic r) = Inl ErrorWithItems \<or>
      snd (validateBusinessLogic r) = Inl (InvalidCurrencyFormat (currency r))) \<and>
   (errorText r = Some t \<and> t \<noteq> [] \<and> snd (validateBusinessLogic r) = Inr () \<longrightarrow> items r = [])"
  by (auto simp: validateBusinessLogic_def Let_def truthy_def split: option.splits)

theorem error_with_items_rejected_witness:
  "errorText blurryWithItems = Some (js ''too blurry'') \<and> js ''too blurry'' \<noteq> [] \<and>
   items blurryWithItems \<noteq> [] \<and> snd (validateBusinessLogic blurryWithItems) = Inl ErrorWithItems \<and>
   errorText blurry = Some (js ''too blurry'') \<and> snd (validateBusinessLogic blurry) = Inr () \<and>
   items blurry = []"
proof -
  have a: "errorText blurryWithItems = Some (js ''too blurry'')" "js ''too blurry'' \<noteq> []"
    "items blurryWithItems \<noteq> []"
    "snd (validateBusinessLogic blurryWithItems) \<noteq>
       Inl (InvalidCurrencyFormat (currency blurryWithItems))"
    by (simp_all add: blurryWithItems_def lunch_def js_def validateBusinessLogic_def Let_def
        truthy_def)
  have b: "errorText blurry = Some (js ''too blurry'')" "snd (validateBusinessLogic blurry) = Inr ()"
    by (simp_all add: blurry_accepted) (simp add: blurry_def)
  from a b error_with_items_rejected [of blurryWithItems "js ''too blurry''"]
    error_with_items_rejected [of blurry "js ''too blurry''"]
  show ?thesis by simp
qed

section \<open>Additional costs\<close>

text \<open>
  Claim C4.  A result with an additional cost whose amount is negative, or whose name
  is empty or made of white space only, is rejected: the validator throws.
\<close>

theorem bad_additional_cost_rejected:
  assumes "additionalCosts r = Some costs" and "cost \<in> set costs"
    and "amount cost < 0 \<or> list_all isWhiteSpace (AdditionalCost.name cost)"
  shows "\<exists>e. snd (validateBusinessLogic r) = Inl e"
proof -
  have "trim (AdditionalCost.name cost) = [] \<or> amount cost < 0"
    using assms(3) by (auto simp: trim_Nil_iff)
  with assms(2) have "checkAdditionalCosts costs \<noteq> Inr ()"
    unfolding checkAdditionalCosts_Inr_iff by (auto simp: not_le)
  with assms(1) have "snd (validateBusinessLogic r) \<noteq> Inr ()"
    by (simp add: outcome_Inr_iff)
  with outcome_cases [of r] show ?thesis by blast
qed

theorem bad_additional_cost_rejected_witness:
  "additionalCosts (withCosts [tax (Num 1), tax (Num (- 2))]) = Some [tax (Num 1), tax (Num (- 2))] \<and>
   tax (Num (- 2)) \<in> set [tax (Num 1), tax (Num (- 2))] \<and> amount (tax (Num (- 2))) < 0 \<and>
   (\<exists>e. snd (validateBusinessLogic (withCosts [tax (Num 1), tax (Num (- 2))])) = Inl e) \<and>
   additionalCosts (withCosts [tax (Num 1), blank]) = Some [tax (Num 1), blank] \<and>
   blank \<in> set [tax (Num 1), blank] \<and> list_all isWhiteSpace (AdditionalCost.name blank) \<and>
   (\<exists>e. snd (validateBusinessLogic (withCosts [tax (Num 1), blank])) = Inl e)"
proof -
  have a: "additionalCosts (withCosts costs) = Some costs" for costs
    by (simp add: withCosts_def)
  have b: "tax (Num (- 2)) \<in> set [tax (Num 1), tax (Num (- 2))]" "blank \<in> set [tax (Num 1), blank]"
    by simp_all
  have c: "amount (tax (Num (- 2))) < 0"
    by (simp add: tax_def Num_order)
  have d: "list_all isWhiteSpace (AdditionalCost.name blank)"
    by (simp add: blank_def js_def isWhiteSpace_def)
  from c d bad_additional_cost_rejected [OF a b(1)] bad_additional_cost_rejected [OF a b(2)]
  show ?thesis by (simp add: a)
qed

section \<open>The safe defaults\<close>

text \<open>
  Claim C9.  Both safe defaults, the one with errorText "parsing error" and the one with
  "processing error", pass the validator, which logs nothing on them.
\<close>

theorem safeDefault_accepted:
  "validateBusinessLogic (safeDefault (js ''parsing error'')) = ([], Inr ()) \<and>
   validateBusinessLogic (safeDefault (js ''processing error'')) = ([], Inr ())"
  by (simp add: validateBusinessLogic_def safeDefault_def js_def truthy_def reconcile_def)

section \<open>The currency code\<close>

text \<open>
  Claim C2.  A response that comes through parsing and validation has a currency of
  exactly three code units.  The currencies "US" and "USDOLLAR" make the validator throw,
  whatever the other fields; the empty currency is refused by the schema before the
  validator runs; so a result with any of the three is rejected.
\<close>

theorem currency_three_required:
  "(snd (parseAndValidate (Coercible r)) = Inr r' \<longrightarrow> length (currency r') = 3) \<and>
   (currency r = js ''US'' \<or> currency r = js ''USDOLLAR'' \<longrightarrow>
      snd (validateBusinessLogic r) = Inl (InvalidCurrencyFormat (currency r))) \<and>
   (currency r = js '''' \<longrightarrow> parse (Coercible r) = Inl OutputParserException) \<and>
   (currency r = js ''US'' \<or> currency r = js ''USDOLLAR'' \<or> currency r = js '''' \<longrightarrow>
      (\<exists>e. snd (parseAndValidate (Coercible r)) = Inl e))"
proof (intro conjI impI)
  assume "snd (parseAndValidate (Coercible r)) = Inr r'"
  then have "r' = r" "length (currency r) \<ge> 1" "currency r \<noteq> [] \<longrightarrow> length (currency r) = 3"
    by (auto simp: parseAndValidate_Inr_iff ReceiptAnalysisResultSchema_def outcome_Inr_iff)
  then show "length (currency r') = 3" by auto
next
  assume "currency r = js ''US'' \<or> currency r = js ''USDOLLAR''"
  then have "currency r \<noteq> [] \<and> length (currency r) \<noteq> 3"
    using js_lengths by auto
  then show "snd (validateBusinessLogic r) = Inl (InvalidCurrencyFormat (currency r))"
    by (simp add: validateBusinessLogic_def Let_def)
next
  assume "currency r = js ''''"
  then show "parse (Coercible r) = Inl OutputParserException"
    by (simp add: parse_def ReceiptAnalysisResultSchema_def js_lengths)
next
  assume c: "currency r = js ''US'' \<or> currency r = js ''USDOLLAR'' \<or> currency r = js ''''"
  have "\<not> (\<exists>r'. snd (parseAndValidate (Coercible r)) = Inr r')"
  proof
    assume "\<exists>r'. snd (parseAndValidate (Coercible r)) = Inr r'"
    then have "length (currency r) \<ge> 1" "currency r \<noteq> [] \<longrightarrow> length (currency r) = 3"
      by (auto simp: parseAndValidate_Inr_iff ReceiptAnalysisResultSchema_def outcome_Inr_iff)
    with c show False by (auto simp: js_def)
  qed
  with parseAndValidate_cases [of "Coercible r"]
  show "\<exists>e. snd (parseAndValidate (Coercible r)) = Inl e" by blast
qed

theorem currency_three_required_witness:
  "snd (parseAndValidate (Coercible (lunch (lit 17.99)))) = Inr (lunch (lit 17.99)) \<and>
   length (currency (lunch (lit 17.99))) = 3 \<and>
   snd (validateBusinessLogic (withCurrency (js ''US''))) = Inl (InvalidCurrencyFormat (js ''US'')) \<and>
   snd (validateBusinessLogic (withCurrency (js ''USDOLLAR''))) =
     Inl (InvalidCurrencyFormat (js ''USDOLLAR'')) \<and>
   parse (Coercible (withCurrency (js ''''))) = Inl OutputParserException \<and>
   (\<exists>e. snd (parseAndValidate (Coercible (withCurrency (js ''US'')))) = Inl e) \<and>
   (\<exists>e. snd (parseAndValidate (Coercible (withCurrency (js ''USDOLLAR'')))) = Inl e) \<and>
   (\<exists>e. snd (parseAndValidate (Coercible (withCurrency (js '''')))) = Inl e)"
proof -
  have a: "snd (parseAndValidate (Coercible (lunch (lit 17.99)))) = Inr (lunch (lit 17.99))"
    by (simp add: parseAndValidate_Inr_iff lunch_schema lunch_accepted lit_17_99 Num_order)
  have c: "currency (withCurrency c) = c" for c
    by (simp add: withCurrency_def)
  from a currency_three_required [of "lunch (lit 17.99)" "lunch (lit 17.99)"]
    currency_three_required [of "withCurrency (js ''US'')"]
    currency_three_required [of "withCurrency (js ''USDOLLAR'')"]
    currency_three_required [of "withCurrency (js '''')"]
  show ?thesis by (simp add: c)
qed

section \<open>Reconciliation of the total\<close>

text \<open>
  Claim C5, as the code has it.  When errorText is absent and there are items, the only
  mismatch diagnostic the validator writes is the one for the calculated total, the
  items subtotal plus the included extra, both summed from the left in double
  arithmetic; and it is written exactly when the absolute value of the double
  difference between that total and totalPrice is greater than the double nearest to
  0.01.  With an items subtotal of 10, one flagged additional cost of 1 and a
  totalPrice of 11 nothing is written.
\<close>

theorem mismatch_diagnostic_iff:
  "(errorText r = None \<and> items r \<noteq> [] \<longrightarrow>
      (TotalPriceMismatch (f_add (itemsSubtotal r) (includedExtra r)) (totalPrice r)
           \<in> set (fst (validateBusinessLogic r))
         \<longleftrightarrow> f_gt (f_abs (f_sub (f_add (itemsSubtotal r) (includedExtra r))
                                 (Some (totalPrice r))))
                   (Some (lit 0.01))) \<and>
      (\<forall>a b. TotalPriceMismatch a b \<in> set (fst (validateBusinessLogic r)) \<longrightarrow>
         a = f_add (itemsSubtotal r) (includedExtra r) \<and> b = totalPrice r)) \<and>
   (errorText r = None \<and> items r \<noteq> [] \<and> itemsSubtotal r = Some (Num 10) \<and>
    additionalCosts r = Some [cost] \<and> amount cost = Num 1 \<and> additionalCost cost \<and>
    totalPrice r = Num 11 \<longrightarrow>
      fst (validateBusinessLogic r) = [])"
proof (intro conjI impI allI)
  assume a: "errorText r = None \<and> items r \<noteq> []"
  then show "TotalPriceMismatch (f_add (itemsSubtotal r) (includedExtra r)) (totalPrice r)
           \<in> set (fst (validateBusinessLogic r))
         \<longleftrightarrow> f_gt (f_abs (f_sub (f_add (itemsSubtotal r) (includedExtra r))
                                 (Some (totalPrice r))))
                   (Some (lit 0.01))"
    by (simp add: mismatch_logged_iff reconcile_eq truthy_def spec_calculatedTotal_def)
  fix a b
  assume "TotalPriceMismatch a b \<in> set (fst (validateBusinessLogic r))"
  then show "a = f_add (itemsSubtotal r) (includedExtra r)" "b = totalPrice r"
    by (auto simp: mismatch_logged_iff reconcile_eq spec_calculatedTotal_def split: if_splits)
next
  assume a: "errorText r = None \<and> items r \<noteq> [] \<and> itemsSubtotal r = Some (Num 10) \<and>
    additionalCosts r = Some [cost] \<and> amount cost = Num 1 \<and> additionalCost cost \<and>
    totalPrice r = Num 11"
  then have "includedExtra r = Some (Num 1)"
    by (simp add: includedExtra_def f_sum_def f_add_zero_left round_1)
  with a have "spec_calculatedTotal r = Some (Num 11)"
    by (simp add: spec_calculatedTotal_def round_11)
  with a have "reconcile r = []"
    by (simp add: reconcile_eq roundDouble_zero lit_0_01 Num_order)
  moreover have "NoItemsFound \<notin> set (fst (validateBusinessLogic r))"
    using a by (simp add: advisory_logged_iff)
  ultimately show "fst (validateBusinessLogic r) = []"
    using fst_validateBusinessLogic [of r] by auto
qed

theorem mismatch_diagnostic_iff_witness:
  "errorText (lunch (Num 20)) = None \<and> items (lunch (Num 20)) \<noteq> [] \<and>
   TotalPriceMismatch (f_add (itemsSubtotal (lunch (Num 20))) (includedExtra (lunch (Num 20))))
       (Num 20)
     \<in> set (fst (validateBusinessLogic (lunch (Num 20)))) \<and>
   errorText pizza = None \<and> items pizza \<noteq> [] \<and> itemsSubtotal pizza = Some (Num 10) \<and>
   additionalCosts pizza = Some [tax (Num 1)] \<and> amount (tax (Num 1)) = Num 1 \<and>
   additionalCost (tax (Num 1)) \<and> totalPrice pizza = Num 11 \<and>
   fst (validateBusinessLogic pizza) = []"
proof -
  have g: "f_gt (f_abs (f_sub (f_add (itemsSubtotal (lunch (Num 20)))
                                   (includedExtra (lunch (Num 20))))
                          (Some (totalPrice (lunch (Num 20))))))
             (Some (lit 0.01))"
    using round_20_minus_lunch lunch_total [of "Num 20"]
    by (simp add: spec_calculatedTotal_def lunch_fields lit_0_01 Num_order roundDouble_minus)
  have p: "errorText pizza = None" "items pizza \<noteq> []" "itemsSubtotal pizza = Some (Num 10)"
    "additionalCosts pizza = Some [tax (Num 1)]" "amount (tax (Num 1)) = Num 1"
    "additionalCost (tax (Num 1))" "totalPrice pizza = Num 11"
    by (simp_all add: pizza_def tax_def itemsSubtotal_def f_sum_def f_add_zero_left round_10)
  have m: "TotalPriceMismatch
             (f_add (itemsSubtotal (lunch (Num 20))) (includedExtra (lunch (Num 20)))) (Num 20)
           \<in> set (fst (validateBusinessLogic (lunch (Num 20))))"
    using mismatch_diagnostic_iff [of "lunch (Num 20)" "tax (Num 1)"] g
    by (simp add: lunch_fields)
  have n: "fst (validateBusinessLogic pizza) = []"
    using mismatch_diagnostic_iff [of pizza "tax (Num 1)"] by (simp add: p)
  from m n show ?thesis by (simp add: lunch_fields p)
qed

text \<open>
  The claim as it is written, with the sums and the difference those of real numbers,
  fails in both directions.  One item at 2^53 with a flagged cost of 1 against a
  totalPrice of 2^53: the difference is 1, but the double sum of 2^53 and 1 is 2^53 and
  nothing is written.  One item at 0.99 against a totalPrice of 1: the difference of
  the decimal amounts is 0.01, not more, but the double nearest to 0.99 is further from
  1 than the double nearest to 0.01 and the diagnostic is written.  All the field values
  are doubles.
\<close>

theorem mismatch_exact_counterexample:
  "isDouble (Num 9007199254740992) \<and> isDouble (Num 1) \<and> isDouble (lit 0.99) \<and>
   validateBusinessLogic fortune = ([], Inr ()) \<and>
   \<bar>(9007199254740992 * 1 + 1) - 9007199254740992\<bar> > (0.01 :: real) \<and>
   validateBusinessLogic gum = ([TotalPriceMismatch (Some (lit 0.99)) (Num 1)], Inr ()) \<and>
   \<not> \<bar>0.99 * 1 - 1\<bar> > (0.01 :: real)"
proof -
  have d: "isDouble (Num 9007199254740992)" "isDouble (Num 1)" "isDouble (lit 0.99)"
    by (simp_all add: isDouble_def round_2_53 round_1 lit_0_99 round_0_99)
  have fa: "snd (validateBusinessLogic fortune) = Inr ()"
    by (simp add: outcome_Inr_iff fortune_def tax_def js_def truthy_def trim_def
        isWhiteSpace_def Num_order)
  have "spec_calculatedTotal fortune = Some (Num 9007199254740992)"
    using round_2_53_plus_1
    by (simp add: spec_calculatedTotal_def itemsSubtotal_def includedExtra_def f_sum_def
        fortune_def tax_def f_add_zero_left round_2_53 round_1)
  then have fr: "reconcile fortune = []"
    by (simp add: reconcile_eq roundDouble_zero lit_0_01 Num_order fortune_def)
  have f: "validateBusinessLogic fortune = ([], Inr ())"
    using fa fr fst_validateBusinessLogic_accepted [OF fa]
    by (simp add: prod_eq_iff fortune_def)
  have ga: "snd (validateBusinessLogic gum) = Inr ()"
    by (simp add: outcome_Inr_iff gum_def js_def truthy_def)
  have "spec_calculatedTotal gum = Some (lit 0.99)"
    by (simp add: spec_calculatedTotal_def itemsSubtotal_def includedExtra_def f_sum_def
        gum_def lit_0_99 f_add_zero_left f_add_zero_right round_0_99)
  then have gr: "reconcile gum = [TotalPriceMismatch (Some (lit 0.99)) (Num 1)]"
    using round_1_minus_0_99
    by (simp add: reconcile_eq lit_0_99 lit_0_01 Num_order roundDouble_minus gum_def truthy_def)
  have g: "validateBusinessLogic gum = ([TotalPriceMismatch (Some (lit 0.99)) (Num 1)], Inr ())"
    using ga gr fst_validateBusinessLogic_accepted [OF ga]
    by (simp add: prod_eq_iff gum_def)
  from d f g show ?thesis by simp
qed

section \<open>A mismatch does not reject\<close>

text \<open>
  Claim C6.  A result with errorText absent, with items, and satisfying rules 1 to 3 is
  accepted whatever its totalPrice is.  For the items 2 at 4.50 and 1 at 8.99, a
  totalPrice of 17.99 is accepted and nothing is written; a totalPrice of 20 is
  accepted too, and one mismatch diagnostic is written, for the calculated total
  17.990000000000002, the double one step above the one nearest to 17.99.
\<close>

theorem mismatch_still_accepted:
  "(errorText r = None \<and> items r \<noteq> [] \<and>
    (currency r \<noteq> [] \<longrightarrow> length (currency r) = 3) \<and>
    (\<forall>costs. additionalCosts r = Some costs \<longrightarrow>
       (\<forall>cost \<in> set costs. amount cost \<ge> 0 \<and> trim (AdditionalCost.name cost) \<noteq> []))
    \<longrightarrow> snd (validateBusinessLogic (r\<lparr> totalPrice := reported \<rparr>)) = Inr ()) \<and>
   validateBusinessLogic (lunch (lit 17.99)) = ([], Inr ()) \<and>
   validateBusinessLogic (lunch (Num 20)) =
     ([TotalPriceMismatch (Some (Num (2531867415512351 / 140737488355328))) (Num 20)], Inr ())"
proof (intro conjI impI)
  assume "errorText r = None \<and> items r \<noteq> [] \<and>
    (currency r \<noteq> [] \<longrightarrow> length (currency r) = 3) \<and>
    (\<forall>costs. additionalCosts r = Some costs \<longrightarrow>
       (\<forall>cost \<in> set costs. amount cost \<ge> 0 \<and> trim (AdditionalCost.name cost) \<noteq> []))"
  then show "snd (validateBusinessLogic (r\<lparr> totalPrice := reported \<rparr>)) = Inr ()"
    by (auto simp: outcome_Inr_iff checkAdditionalCosts_Inr_iff truthy_def split: option.splits)
next
  show "validateBusinessLogic (lunch (lit 17.99)) = ([], Inr ())"
    by (rule lunch_17_99_validated)
next
  show "validateBusinessLogic (lunch (Num 20)) =
     ([TotalPriceMismatch (Some (Num (2531867415512351 / 140737488355328))) (Num 20)], Inr ())"
    by (rule lunch_20_validated)
qed

theorem mismatch_still_accepted_witness:
  "errorText (withCosts [tax (Num 1.5)]) = None \<and> items (withCosts [tax (Num 1.5)]) \<noteq> [] \<and>
   currency (withCosts [tax (Num 1.5)]) \<noteq> [] \<and> length (currency (withCosts [tax (Num 1.5)])) = 3 \<and>
   additionalCosts (withCosts [tax (Num 1.5)]) = Some [tax (Num 1.5)] \<and>
   amount (tax (Num 1.5)) \<ge> 0 \<and> trim (AdditionalCost.name (tax (Num 1.5))) \<noteq> [] \<and>
   snd (validateBusinessLogic ((withCosts [tax (Num 1.5)])\<lparr> totalPrice := Num 100 \<rparr>)) = Inr ()"
proof -
  have a: "errorText (withCosts [tax (Num 1.5)]) = None" "items (withCosts [tax (Num 1.5)]) \<noteq> []"
    "currency (withCosts [tax (Num 1.5)]) \<noteq> []" "length (currency (withCosts [tax (Num 1.5)])) = 3"
    "additionalCosts (withCosts [tax (Num 1.5)]) = Some [tax (Num 1.5)]"
    by (simp_all add: withCosts_def lunch_def js_def)
  have b: "amount (tax (Num 1.5)) \<ge> 0" "trim (AdditionalCost.name (tax (Num 1.5))) \<noteq> []"
    by (simp_all add: tax_def js_def trim_def isWhiteSpace_def Num_order)
  from a b mismatch_still_accepted [of "withCosts [tax (Num 1.5)]" "Num 100"]
  show ?thesis by simp
qed

section \<open>Recovery inside the processor\<close>

text \<open>
  Claim C7.  When the parser fails on the response, or the validator throws on the
  parsed value, the processor does not throw: it returns the safe default with errorText
  "parsing error".
\<close>

theorem failure_returns_safe_default:
  assumes "parse content = Inl e \<or>
           (parse content = Inr r \<and> snd (validateBusinessLogic r) = Inl e)"
  shows "snd (processReceiptImage (Returns content)) =
           Inr \<lparr> items = [], additionalCosts = Some [], totalPrice = 0, currency = js ''USD'',
                 currencySymbol = Some (js ''$''), errorText = Some (js ''parsing error'') \<rparr>"
  using assms
  by (auto simp: processReceiptImage_def parseAndValidate_def safeDefault_def
      split: prod.splits sum.splits)

theorem failure_returns_safe_default_witness:
  "parse NotCoercible = Inl OutputParserException \<and>
   snd (processReceiptImage (Returns NotCoercible)) = Inr (safeDefault (js ''parsing error'')) \<and>
   parse (Coercible (withCurrency (js ''US''))) = Inr (withCurrency (js ''US'')) \<and>
   snd (validateBusinessLogic (withCurrency (js ''US''))) = Inl (InvalidCurrencyFormat (js ''US'')) \<and>
   snd (processReceiptImage (Returns (Coercible (withCurrency (js ''US''))))) =
     Inr (safeDefault (js ''parsing error''))"
proof -
  have a: "parse NotCoercible = Inl OutputParserException"
    by (simp add: parse_def)
  have b: "parse (Coercible (withCurrency (js ''US''))) = Inr (withCurrency (js ''US''))"
    by (simp add: parse_def withCurrency_def lunch_def ReceiptAnalysisResultSchema_def
        ReceiptItemSchema_def js_def lit_8_99 lit_17_99 Num_order)
  have c: "snd (validateBusinessLogic (withCurrency (js ''US''))) =
             Inl (InvalidCurrencyFormat (js ''US''))"
    by (simp add: validateBusinessLogic_def withCurrency_def js_def)
  from a b c
    failure_returns_safe_default [of NotCoercible OutputParserException]
    failure_returns_safe_default [of "Coercible (withCurrency (js ''US''))"
      "InvalidCurrencyFormat (js ''US'')" "withCurrency (js ''US'')"]
  show ?thesis by (simp add: safeDefault_def)
qed

section \<open>Validating twice\<close>

text \<open>
  Claim C8.  The validator leaves the object it checks as it found it: whatever state
  it starts in, the object after the run is the object before it, and the only change
  is what it appends to the console.  The outcome is the one the function
  \<open>validateBusinessLogic\<close> gives for that object.  So when it has accepted once, a second
  run on the state it left accepts again, and the object is still the same.
\<close>

theorem validation_idempotent:
  "result_object (snd (validateBusinessLogic_in m)) = result_object m \<and>
   fst (validateBusinessLogic_in m) = snd (validateBusinessLogic (result_object m)) \<and>
   console (snd (validateBusinessLogic_in m)) =
     console m @ fst (validateBusinessLogic (result_object m)) \<and>
   (fst (validateBusinessLogic_in m) = Inr () \<longrightarrow>
      fst (validateBusinessLogic_in (snd (validateBusinessLogic_in m))) = Inr () \<and>
      result_object (snd (validateBusinessLogic_in (snd (validateBusinessLogic_in m)))) =
        result_object m)"
  by (simp add: validateBusinessLogic_in_eq)

theorem validation_idempotent_witness:
  "fst (validateBusinessLogic_in \<lparr> result_object = lunch (Num 20), console = [] \<rparr>) = Inr () \<and>
   fst (validateBusinessLogic_in
          (snd (validateBusinessLogic_in \<lparr> result_object = lunch (Num 20), console = [] \<rparr>))) =
     Inr () \<and>
   result_object
     (snd (validateBusinessLogic_in
             (snd (validateBusinessLogic_in \<lparr> result_object = lunch (Num 20), console = [] \<rparr>)))) =
     lunch (Num 20)"
proof -
  have a: "fst (validateBusinessLogic_in \<lparr> result_object = lunch (Num 20), console = [] \<rparr>) = Inr ()"
    by (simp add: validateBusinessLogic_in_eq lunch_accepted)
  from a validation_idempotent [of "\<lparr> result_object = lunch (Num 20), console = [] \<rparr>"]
  show ?thesis by simp
qed

section \<open>The empty errorText\<close>

text \<open>
  Claim C10, as the code has it.  On a result whose errorText is the empty string the
  validator behaves exactly as on the same result with errorText absent: same outcome,
  same console output, the reconciliation included.  With items, the exclusivity check
  does not reject it.  Without items, the advisory is written whenever the currency
  check before it does not throw, that is, when the currency is empty or has three code
  units.
\<close>

theorem empty_errorText_as_absent:
  assumes "errorText r = Some []"
  shows "validateBusinessLogic r = validateBusinessLogic (r\<lparr> errorText := None \<rparr>) \<and>
    (items r \<noteq> [] \<longrightarrow> snd (validateBusinessLogic r) \<noteq> Inl ErrorWithItems) \<and>
    (items r = [] \<longrightarrow>
       (NoItemsFound \<in> set (fst (validateBusinessLogic r))
          \<longleftrightarrow> (currency r \<noteq> [] \<longrightarrow> length (currency r) = 3)))"
proof (intro conjI impI)
  show "validateBusinessLogic r = validateBusinessLogic (r\<lparr> errorText := None \<rparr>)"
  proof -
    have "reconcile (r\<lparr> errorText := None \<rparr>) = reconcile r"
      using assms by (simp add: reconcile_def truthy_def Let_def)
    then show ?thesis
      using assms by (simp add: validateBusinessLogic_def truthy_def Let_def split: option.splits)
  qed
  show "NoItemsFound \<in> set (fst (validateBusinessLogic r))
          \<longleftrightarrow> (currency r \<noteq> [] \<longrightarrow> length (currency r) = 3)" if "items r = []"
    using assms that by (simp add: advisory_logged_iff truthy_def)
  show "snd (validateBusinessLogic r) \<noteq> Inl ErrorWithItems" if "items r \<noteq> []"
    using assms
    by (auto simp: validateBusinessLogic_def Let_def truthy_def
        checkAdditionalCosts_not_ErrorWithItems split: option.splits)
qed

theorem empty_errorText_as_absent_witness:
  "errorText ((lunch (Num 20))\<lparr> errorText := Some [] \<rparr>) = Some [] \<and>
   items ((lunch (Num 20))\<lparr> errorText := Some [] \<rparr>) \<noteq> [] \<and>
   validateBusinessLogic ((lunch (Num 20))\<lparr> errorText := Some [] \<rparr>) =
     validateBusinessLogic (lunch (Num 20)) \<and>
   snd (validateBusinessLogic ((lunch (Num 20))\<lparr> errorText := Some [] \<rparr>)) = Inr () \<and>
   errorText (nothingFound (js ''USD'')) = Some [] \<and> items (nothingFound (js ''USD'')) = [] \<and>
   length (currency (nothingFound (js ''USD''))) = 3 \<and>
   NoItemsFound \<in> set (fst (validateBusinessLogic (nothingFound (js ''USD''))))"
proof -
  have a: "(lunch t)\<lparr> errorText := None \<rparr> = lunch t" for t
    by (simp add: lunch_def)
  have c: "errorText (nothingFound (js ''USD'')) = Some []" "items (nothingFound (js ''USD'')) = []"
    "length (currency (nothingFound (js ''USD''))) = 3"
    by (simp_all add: nothingFound_def js_def)
  have v: "validateBusinessLogic ((lunch (Num 20))\<lparr> errorText := Some [] \<rparr>) =
             validateBusinessLogic (lunch (Num 20))"
    using empty_errorText_as_absent [of "(lunch (Num 20))\<lparr> errorText := Some [] \<rparr>"]
    by (simp add: a lunch_fields)
  have n: "NoItemsFound \<in> set (fst (validateBusinessLogic (nothingFound (js ''USD''))))"
    using empty_errorText_as_absent [of "nothingFound (js ''USD'')"] c by blast
  from v n show ?thesis by (simp add: lunch_fields lunch_accepted c)
qed

text \<open>
  The claim as it is written fails where the currency check throws first: with errorText
  the empty string, no items and the currency "US", a value that passes the schema, the
  validator throws at the currency check and the advisory is not written.
\<close>

theorem empty_errorText_advisory_counterexample:
  "errorText (nothingFound (js ''US'')) = Some (js '''') \<and> items (nothingFound (js ''US'')) = [] \<and>
   ReceiptAnalysisResultSchema (nothingFound (js ''US'')) \<and>
   validateBusinessLogic (nothingFound (js ''US'')) = ([], Inl (InvalidCurrencyFormat (js ''US''))) \<and>
   NoItemsFound \<notin> set (fst (validateBusinessLogic (nothingFound (js ''US''))))"
  by (simp add: nothingFound_def validateBusinessLogic_def Let_def reconcile_def truthy_def js_def
      ReceiptAnalysisResultSchema_def Num_order)

end
